theory Spec2Isabelle
  imports Complex_Main "HOL-Library.AList"
begin

section \<open>Go values shared by the whole module\<close>

text \<open>
  A Go \<open>error\<close> is either a plain message (\<open>errors.New\<close>, an error of a library) or
  an error wrapped by \<open>fmt.Errorf("<prefix>%w", err)\<close>: its message is the prefix
  followed by the message of the wrapped error, and \<open>Unwrap\<close> gives the wrapped
  error back. A nil \<open>error\<close> is \<open>None\<close> of \<open>error option\<close>.
\<close>

datatype error = ErrorString string | WrapError string error

fun Error_msg :: "error \<Rightarrow> string" where
  "Error_msg (ErrorString s) = s"
| "Error_msg (WrapError prefix e) = prefix @ Error_msg e"

fun Unwrap :: "error \<Rightarrow> error option" where
  "Unwrap (ErrorString s) = None"
| "Unwrap (WrapError prefix e) = Some e"

text \<open>The tag set of k6 (\<open>metrics.TagSet\<close>): \<open>With\<close> sets one key.\<close>

type_synonym TagSet = "(string \<times> string) list"

definition With :: "TagSet \<Rightarrow> string \<Rightarrow> string \<Rightarrow> TagSet" where
  "With tags k v = AList.update k v tags"

section \<open>metrics/metrics.go\<close>

text \<open>
  The four metrics registered by \<open>NewK6Metrics\<close>, named by their constants.
\<close>

definition requestDurationName :: string where
  "requestDurationName = ''mcp_request_duration''"

definition requestCountName :: string where
  "requestCountName = ''mcp_request_count''"

definition requestErrorsName :: string where
  "requestErrorsName = ''mcp_request_errors''"

definition requestErrorsDurationName :: string where
  "requestErrorsDurationName = ''mcp_request_errors_duration''"

text \<open>
  A sample (\<open>metrics.Sample\<close>): the metric, the tags and the value. The \<open>Time\<close>
  field (\<open>time.Now()\<close>) is left out. A \<open>time.Duration\<close> is an integer number of
  nanoseconds and \<open>time.Millisecond\<close> is \<open>1000000\<close>; the quotient of the two
  \<open>float64\<close> conversions is taken in the reals.
\<close>

record Sample =
  Metric :: string
  Tags :: TagSet
  Value :: real

definition Millisecond :: int where
  "Millisecond = 1000000"

text \<open>
  \<open>metrics.PushIfNotDone(ctx, output, sample)\<close> of k6: nothing is sent when the
  context is done, otherwise the sample is sent to the channel. The channel is the
  list of the samples sent so far; \<open>done\<close> is \<open>ctx.Err() != nil\<close>.
\<close>

definition PushIfNotDone :: "bool \<Rightarrow> Sample list \<Rightarrow> Sample \<Rightarrow> Sample list" where
  "PushIfNotDone done output sample = (if done then output else output @ [sample])"

record K6Metrics =
  samples :: "Sample list"
  tagsAndMeta :: TagSet
  requestDuration :: string
  requestCount :: string
  requestErrors :: string
  requestErrorsDuration :: string

definition NewK6Metrics :: "Sample list \<Rightarrow> TagSet \<Rightarrow> K6Metrics" where
  "NewK6Metrics smpls tgs =
     \<lparr>samples = smpls, tagsAndMeta = tgs,
      requestDuration = requestDurationName,
      requestCount = requestCountName,
      requestErrors = requestErrorsName,
      requestErrorsDuration = requestErrorsDurationName\<rparr>"

text \<open>
  \<open>K6Metrics.Push(ctx, method, duration, err)\<close>. The result is the recorder with
  its channel after the call.
\<close>

definition Push :: "K6Metrics \<Rightarrow> bool \<Rightarrow> string \<Rightarrow> int \<Rightarrow> error option \<Rightarrow> K6Metrics" where
  "Push k ctx_done method duration err =
    (let tags = With (tagsAndMeta k) ''method'' method;
         s1 = PushIfNotDone ctx_done (samples k)
                \<lparr>Metric = requestDuration k, Tags = tags,
                 Value = real_of_int duration / real_of_int Millisecond\<rparr>;
         s2 = PushIfNotDone ctx_done s1
                \<lparr>Metric = requestCount k, Tags = tags, Value = 1\<rparr>
     in if err \<noteq> None then
          (let s3 = PushIfNotDone ctx_done s2
                      \<lparr>Metric = requestErrors k, Tags = tags, Value = 1\<rparr>;
               s4 = PushIfNotDone ctx_done s3
                      \<lparr>Metric = requestErrorsDuration k, Tags = tags,
                       Value = real_of_int duration / real_of_int Millisecond\<rparr>
           in k\<lparr>samples := s4\<rparr>)
        else k\<lparr>samples := s2\<rparr>)"

section \<open>mcp.go: the client and its request metrics\<close>

text \<open>
  The client (\<open>Client\<close>): the session, the k6 state it writes samples to
  (\<open>k6_state.Tags\<close>, \<open>k6_state.Samples\<close>) and its context, of which only
  whether it is done matters. The session is the state of the connection and of the
  peer behind it, of any type \<open>'s\<close>. The client is one of a virtual user: its k6
  state and the global \<open>mcp_metrics\<close> are not nil.
\<close>

record 's Client =
  session :: 's
  k6_Tags :: TagSet
  k6_Samples :: "Sample list"
  ctx_done :: bool

text \<open>
  \<open>pushRequestMetrics(client, method, duration, err)\<close>, with the three metrics of
  the global \<open>mcp_metrics\<close> named by the constants they are registered under.
\<close>

definition pushRequestMetrics ::
  "'s Client \<Rightarrow> string \<Rightarrow> int \<Rightarrow> error option \<Rightarrow> 's Client" where
  "pushRequestMetrics client method duration err =
    (let tags = With (k6_Tags client) ''method'' method;
         s1 = PushIfNotDone (ctx_done client) (k6_Samples client)
                \<lparr>Metric = requestDurationName, Tags = tags,
                 Value = real_of_int duration / real_of_int Millisecond\<rparr>;
         s2 = PushIfNotDone (ctx_done client) s1
                \<lparr>Metric = requestCountName, Tags = tags, Value = 1\<rparr>
     in if err \<noteq> None then
          client\<lparr>k6_Samples := PushIfNotDone (ctx_done client) s2
                      \<lparr>Metric = requestErrorsName, Tags = tags, Value = 1\<rparr>\<rparr>
        else client\<lparr>k6_Samples := s2\<rparr>)"

subsection \<open>The RPC methods of the client\<close>

text \<open>
  The names of the methods, as the metrics are tagged with them.
\<close>

definition listToolsMethodName :: string where
  "listToolsMethodName = ''tools/list''"

definition callToolMethodName :: string where
  "callToolMethodName = ''tools/call''"

definition listResourcesMethodName :: string where
  "listResourcesMethodName = ''resources/list''"

definition readResourceMethodName :: string where
  "readResourceMethodName = ''resources/read''"

definition listPromptsMethodName :: string where
  "listPromptsMethodName = ''prompts/list''"

definition getPromptMethodName :: string where
  "getPromptMethodName = ''prompts/get''"

text \<open>
  The session (\<open>*mcp.ClientSession\<close>) belongs to the SDK. Each of its methods is a
  function of the session state: it takes the state and the parameters and gives
  the outcome, an error (\<open>Inl\<close>) or a result (\<open>Inr\<close>), and the state after the
  exchange. A peer may answer the same request differently each time: what it will
  answer is part of the state. \<open>now\<close> reads the clock (\<open>time.Now()\<close>, in
  nanoseconds) in a state, so that \<open>time.Since(start)\<close> after a call is the
  difference of the clock after and before it.

  \<open>Client.Ping\<close>: the error of the session's \<open>Ping\<close> becomes a boolean.
\<close>

definition Ping :: "('s \<Rightarrow> error option \<times> 's) \<Rightarrow> 's Client \<Rightarrow> bool \<times> 's Client" where
  "Ping session_Ping c =
    (let (err, s') = session_Ping (session c)
     in (err = None, c\<lparr>session := s'\<rparr>))"

text \<open>The error of an outcome (\<open>err\<close> of \<open>result, err := ...\<close>), nil on a result.\<close>

fun err_of :: "error + 'r \<Rightarrow> error option" where
  "err_of (Inl e) = Some e"
| "err_of (Inr r) = None"

text \<open>
  The six single calls. Each times the call of the session, pushes the request
  metrics under its method name and returns the outcome as the session gave it.
\<close>

definition Client_ListTools ::
  "('s \<Rightarrow> int) \<Rightarrow> ('s \<Rightarrow> 'p \<Rightarrow> (error + 'r) \<times> 's) \<Rightarrow> 's Client \<Rightarrow> 'p \<Rightarrow>
   (error + 'r) \<times> 's Client" where
  "Client_ListTools now session_ListTools c r =
    (let start = now (session c);
         (result, s') = session_ListTools (session c) r
     in (result, pushRequestMetrics (c\<lparr>session := s'\<rparr>) listToolsMethodName
                   (now s' - start) (err_of result)))"

definition Client_CallTool ::
  "('s \<Rightarrow> int) \<Rightarrow> ('s \<Rightarrow> 'p \<Rightarrow> (error + 'r) \<times> 's) \<Rightarrow> 's Client \<Rightarrow> 'p \<Rightarrow>
   (error + 'r) \<times> 's Client" where
  "Client_CallTool now session_CallTool c r =
    (let start = now (session c);
         (result, s') = session_CallTool (session c) r
     in (result, pushRequestMetrics (c\<lparr>session := s'\<rparr>) callToolMethodName
                   (now s' - start) (err_of result)))"

definition ListResources ::
  "('s \<Rightarrow> int) \<Rightarrow> ('s \<Rightarrow> 'p \<Rightarrow> (error + 'r) \<times> 's) \<Rightarrow> 's Client \<Rightarrow> 'p \<Rightarrow>
   (error + 'r) \<times> 's Client" where
  "ListResources now session_ListResources c r =
    (let start = now (session c);
         (res, s') = session_ListResources (session c) r
     in (res, pushRequestMetrics (c\<lparr>session := s'\<rparr>) listResourcesMethodName
                (now s' - start) (err_of res)))"

definition ReadResource ::
  "('s \<Rightarrow> int) \<Rightarrow> ('s \<Rightarrow> 'p \<Rightarrow> (error + 'r) \<times> 's) \<Rightarrow> 's Client \<Rightarrow> 'p \<Rightarrow>
   (error + 'r) \<times> 's Client" where
  "ReadResource now session_ReadResource c r =
    (let start = now (session c);
         (res, s') = session_ReadResource (session c) r
     in (res, pushRequestMetrics (c\<lparr>session := s'\<rparr>) readResourceMethodName
                (now s' - start) (err_of res)))"

definition ListPrompts ::
  "('s \<Rightarrow> int) \<Rightarrow> ('s \<Rightarrow> 'p \<Rightarrow> (error + 'r) \<times> 's) \<Rightarrow> 's Client \<Rightarrow> 'p \<Rightarrow>
   (error + 'r) \<times> 's Client" where
  "ListPrompts now session_ListPrompts c r =
    (let start = now (session c);
         (res, s') = session_ListPrompts (session c) r
     in (res, pushRequestMetrics (c\<lparr>session := s'\<rparr>) listPromptsMethodName
                (now s' - start) (err_of res)))"

definition GetPrompt ::
  "('s \<Rightarrow> int) \<Rightarrow> ('s \<Rightarrow> 'p \<Rightarrow> (error + 'r) \<times> 's) \<Rightarrow> 's Client \<Rightarrow> 'p \<Rightarrow>
   (error + 'r) \<times> 's Client" where
  "GetPrompt now session_GetPrompt c r =
    (let start = now (session c);
         (res, s') = session_GetPrompt (session c) r
     in (res, pushRequestMetrics (c\<lparr>session := s'\<rparr>) getPromptMethodName
                (now s' - start) (err_of res)))"

subsection \<open>Listing all pages\<close>

text \<open>
  \<open>mcp.Meta\<close> is a map, nil (\<open>None\<close>) when absent. The parameters of one page
  (\<open>ListToolsParams\<close>, \<open>ListResourcesParams\<close>, \<open>ListPromptsParams\<close>) hold the
  meta and the cursor; the result of one page (\<open>ListToolsResult\<close>,
  \<open>ListResourcesResult\<close>, \<open>ListPromptsResult\<close>) holds the items, a slice of
  pointers in which a nil pointer is \<open>None\<close>, and the next cursor.
\<close>

type_synonym Meta = "(string \<times> string) list"

record ListParams =
  Meta :: "Meta option"
  Cursor :: string

record 'a ListResult =
  Items :: "'a option list"
  NextCursor :: string

record ListAllParams =
  ListAll_Meta :: "Meta option"

record 't ListAllToolsResult =
  Tools :: "'t list"

record 'r ListAllResourcesResult =
  Resources :: "'r list"

record 'p ListAllPromptsResult =
  Prompts :: "'p list"

text \<open>
  The inner loop over one page: \<open>for _, t := range result.Tools\<close> appends the
  pointed-to value of every pointer that is not nil.
\<close>

fun append_nonnil :: "'a list \<Rightarrow> 'a option list \<Rightarrow> 'a list" where
  "append_nonnil all [] = all"
| "append_nonnil all (None # ts) = append_nonnil all ts"
| "append_nonnil all (Some t # ts) = append_nonnil (all @ [t]) ts"

text \<open>
  The loop \<open>for { ... }\<close> of \<open>ListAllTools\<close>, \<open>ListAllResources\<close> and
  \<open>ListAllPrompts\<close>, which differ in the method of the session they call and in the
  method name of the metrics. It leaves by \<open>break\<close> on an error or on an empty
  next cursor and has no other exit: a run that never leaves is the value \<open>None\<close>.
  The cursor of the request is the cursor of the loop (it is set when that is not
  empty, and is empty otherwise). The result is \<open>err\<close>, the accumulated items and
  the client after the loop.
\<close>

partial_function (option) ListAll_loop ::
  "('s \<Rightarrow> int) \<Rightarrow> ('s \<Rightarrow> ListParams \<Rightarrow> (error + 'a ListResult) \<times> 's) \<Rightarrow> string \<Rightarrow>
   Meta option \<Rightarrow> 's Client \<Rightarrow> string \<Rightarrow> 'a list \<Rightarrow>
   (error option \<times> 'a list \<times> 's Client) option" where
  "ListAll_loop now session_List method meta c cursor all =
    (let params = \<lparr>Meta = meta, Cursor = cursor\<rparr>;
         start = now (session c);
         (result, s') = session_List (session c) params;
         c' = pushRequestMetrics (c\<lparr>session := s'\<rparr>) method (now s' - start)
                (err_of result)
     in case result of
          Inl err \<Rightarrow> Some (Some err, all, c')
        | Inr result \<Rightarrow>
            (let all' = append_nonnil all (Items result)
             in if NextCursor result = [] then Some (None, all', c')
                else ListAll_loop now session_List method meta c' (NextCursor result) all'))"

definition ListAllTools ::
  "('s \<Rightarrow> int) \<Rightarrow> ('s \<Rightarrow> ListParams \<Rightarrow> (error + 't ListResult) \<times> 's) \<Rightarrow> 's Client \<Rightarrow>
   ListAllParams \<Rightarrow> (('t ListAllToolsResult option \<times> error option) \<times> 's Client) option" where
  "ListAllTools now session_ListTools c r =
    (let meta = (case ListAll_Meta r of None \<Rightarrow> Some [] | Some m \<Rightarrow> Some m)
     in case ListAll_loop now session_ListTools listToolsMethodName meta c [] [] of
          None \<Rightarrow> None
        | Some (err, allTools, c') \<Rightarrow>
            (case err of
               Some e \<Rightarrow> Some ((None, Some (WrapError ''failed to list tools: '' e)), c')
             | None \<Rightarrow> Some ((Some \<lparr>Tools = allTools\<rparr>, None), c')))"

definition ListAllResources ::
  "('s \<Rightarrow> int) \<Rightarrow> ('s \<Rightarrow> ListParams \<Rightarrow> (error + 'r ListResult) \<times> 's) \<Rightarrow> 's Client \<Rightarrow>
   ListAllParams \<Rightarrow> (('r ListAllResourcesResult option \<times> error option) \<times> 's Client) option" where
  "ListAllResources now session_ListResources c r =
    (let meta = (case ListAll_Meta r of None \<Rightarrow> Some [] | Some m \<Rightarrow> Some m)
     in case ListAll_loop now session_ListResources listResourcesMethodName meta c [] [] of
          None \<Rightarrow> None
        | Some (err, allResources, c') \<Rightarrow>
            (case err of
               Some e \<Rightarrow> Some ((None, Some (WrapError ''failed to list resources: '' e)), c')
             | None \<Rightarrow> Some ((Some \<lparr>Resources = allResources\<rparr>, None), c')))"

definition ListAllPrompts ::
  "('s \<Rightarrow> int) \<Rightarrow> ('s \<Rightarrow> ListParams \<Rightarrow> (error + 'p ListResult) \<times> 's) \<Rightarrow> 's Client \<Rightarrow>
   ListAllParams \<Rightarrow> (('p ListAllPromptsResult option \<times> error option) \<times> 's Client) option" where
  "ListAllPrompts now session_ListPrompts c r =
    (let meta = (case ListAll_Meta r of None \<Rightarrow> Some [] | Some m \<Rightarrow> Some m)
     in case ListAll_loop now session_ListPrompts listPromptsMethodName meta c [] [] of
          None \<Rightarrow> None
        | Some (err, allPrompts, c') \<Rightarrow>
            (case err of
               Some e \<Rightarrow> Some ((None, Some (WrapError ''failed to list prompts: '' e)), c')
             | None \<Rightarrow> Some ((Some \<lparr>Prompts = allPrompts\<rparr>, None), c')))"

subsection \<open>What a peer answers\<close>

text \<open>
  \<open>normMeta\<close> is the meta every page request carries. \<open>serves\<close> says that the
  session, asked from state \<open>s\<close> with cursor \<open>cursor\<close> and then with the cursor
  of each page in turn, answers the pages \<open>ps\<close> (at least one), every page but the
  last with a next cursor and the last one without. \<open>fails_after\<close> says that it
  answers the pages \<open>ps\<close> (possibly none), each with a next cursor, and then the
  error \<open>e\<close>.
\<close>

definition normMeta :: "ListAllParams \<Rightarrow> Meta option" where
  "normMeta r = (case ListAll_Meta r of None \<Rightarrow> Some [] | Some m \<Rightarrow> Some m)"

fun serves ::
  "('s \<Rightarrow> ListParams \<Rightarrow> (error + 'a ListResult) \<times> 's) \<Rightarrow> Meta option \<Rightarrow> 's \<Rightarrow> string \<Rightarrow>
   'a ListResult list \<Rightarrow> bool" where
  "serves f meta s cursor [] = False"
| "serves f meta s cursor (p # ps) =
     (case f s \<lparr>Meta = meta, Cursor = cursor\<rparr> of
        (Inl e, s') \<Rightarrow> False
      | (Inr r, s') \<Rightarrow>
          r = p \<and>
          (if ps = [] then NextCursor p = []
           else NextCursor p \<noteq> [] \<and> serves f meta s' (NextCursor p) ps))"

fun fails_after ::
  "('s \<Rightarrow> ListParams \<Rightarrow> (error + 'a ListResult) \<times> 's) \<Rightarrow> Meta option \<Rightarrow> 's \<Rightarrow> string \<Rightarrow>
   'a ListResult list \<Rightarrow> error \<Rightarrow> bool" where
  "fails_after f meta s cursor [] e =
     (fst (f s \<lparr>Meta = meta, Cursor = cursor\<rparr>) = Inl e)"
| "fails_after f meta s cursor (p # ps) e =
     (case f s \<lparr>Meta = meta, Cursor = cursor\<rparr> of
        (Inl e', s') \<Rightarrow> False
      | (Inr r, s') \<Rightarrow>
          r = p \<and> NextCursor p \<noteq> [] \<and> fails_after f meta s' (NextCursor p) ps e)"

text \<open>
  The items of the pages, as the peer sent them, and those of them that are not nil.
\<close>

definition page_items :: "'a ListResult list \<Rightarrow> 'a option list" where
  "page_items ps = concat (map Items ps)"

definition nonnil_items :: "'a ListResult list \<Rightarrow> 'a list" where
  "nonnil_items ps = concat (map (\<lambda>p. append_nonnil [] (Items p)) ps)"

text \<open>
  A session that answers from a script: the state is the list of the outcomes still
  to come, one per request, whatever the request is; the clock does not move. A
  request beyond the script fails. And a session that answers every request with
  the same one-item page and the same next cursor.
\<close>

definition scripted ::
  "(error + 'r) list \<Rightarrow> 'p \<Rightarrow> (error + 'r) \<times> (error + 'r) list" where
  "scripted s params =
    (case s of [] \<Rightarrow> (Inl (ErrorString ''EOF''), []) | x # xs \<Rightarrow> (x, xs))"

definition stuck :: "unit \<Rightarrow> ListParams \<Rightarrow> (error + nat ListResult) \<times> unit" where
  "stuck s params = (Inr \<lparr>Items = [Some 0], NextCursor = ''again''\<rparr>, ())"

definition client0 :: "'s \<Rightarrow> 's Client" where
  "client0 s = \<lparr>session = s, k6_Tags = [], k6_Samples = [], ctx_done = False\<rparr>"

section \<open>mcp.go: building a client\<close>

text \<open>
  The configuration the script passes (\<open>ClientConfig\<close>, \<open>AuthConfig\<close>). \<open>Env\<close> is
  a map, given here in the order in which \<open>range\<close> goes through it.
\<close>

record AuthConfig =
  BearerToken :: string

record ClientConfig =
  Path :: string
  Args :: "string list"
  Env :: "(string \<times> string) list"
  Debug :: bool
  BaseURL :: string
  cfg_Timeout :: int
  Auth :: AuthConfig

text \<open>
  A TLS configuration and the two options of connection reuse (\<open>null.Bool\<close>,
  read by \<open>ValueOrZero\<close>). Of a \<open>tls.Config\<close> the server name stands for the
  fields that \<open>Clone\<close> copies and nothing here changes.
\<close>

record TLSConfig =
  ServerName :: string
  NextProtos :: "string list"

record Options =
  NoConnectionReuse :: "bool option"
  NoVUConnectionReuse :: "bool option"

definition ValueOrZero :: "bool option \<Rightarrow> bool" where
  "ValueOrZero b = (case b of None \<Rightarrow> False | Some v \<Rightarrow> v)"

subsection \<open>HTTP clients and bearer tokens\<close>

text \<open>
  An \<open>http.Client\<close> is its transport and its timeout. A transport
  (\<open>http.RoundTripper\<close>) is an \<open>http.Transport\<close>, or the \<open>oauth2.Transport\<close> that
  \<open>oauth2.NewClient\<close> puts around a base transport, or the transport that
  \<open>otelhttp.NewTransport\<close> puts around one.
\<close>

record Token =
  AccessToken :: string
  TokenType :: string

datatype TokenSource = StaticTokenSource Token | ReuseTokenSource "Token option" TokenSource

record http_Transport =
  DialContext :: string
  ProxyFromEnvironment :: bool
  TLSClientConfig :: "TLSConfig option"
  DisableKeepAlives :: bool

datatype RoundTripper =
    HTTP_Transport http_Transport
  | OAuth2_Transport TokenSource RoundTripper
  | Otel_Transport RoundTripper

record http_Client =
  Transport :: RoundTripper
  Timeout :: int

record Request =
  URL :: string
  Header :: "(string \<times> string) list"

text \<open>
  \<open>http.DefaultTransport\<close>, the transport used where none is given.
\<close>

definition DefaultTransport :: RoundTripper where
  "DefaultTransport =
     HTTP_Transport \<lparr>DialContext = ''default'', ProxyFromEnvironment = True,
                     TLSClientConfig = None, DisableKeepAlives = False\<rparr>"

text \<open>
  What the module reads of the state of the virtual user (\<open>m.vu.State()\<close>, a
  \<open>lib.State\<close>): the tags and the sample channel, the TLS configuration (a pointer,
  nil is \<open>None\<close>), the dialer, the options, the transport and the tracer provider.
  A virtual user (\<open>modules.VU\<close>) gives its state and its context. The state is
  taken as not nil where the code dereferences it without a test.
\<close>

record State =
  State_Tags :: TagSet
  State_Samples :: "Sample list"
  State_TLSConfig :: "TLSConfig option"
  State_Dialer :: string
  State_Options :: Options
  State_Transport :: RoundTripper
  State_TracerProvider :: string

record VU =
  vu_State :: State
  vu_Context_done :: bool

text \<open>
  The \<open>oauth2\<close> package, as far as it is used. A static token source gives the
  same token at every call; \<open>ReuseTokenSource\<close> gives its cached token while that is
  valid and asks its source otherwise. \<open>Token.Type\<close> of a token with no type is
  \<open>Bearer\<close>. \<open>NewClient\<close> takes the client of the context and keeps its
  timeout. \<open>send\<close> is the request as the innermost \<open>http.Transport\<close> puts it on
  the wire: the \<open>RoundTrip\<close> of an \<open>oauth2.Transport\<close> sets the header
  \<open>Authorization\<close> on a copy of the request and hands the copy to its base.
\<close>

definition Valid :: "Token \<Rightarrow> bool" where
  "Valid t = (AccessToken t \<noteq> [])"

fun Token_of :: "TokenSource \<Rightarrow> Token" where
  "Token_of (StaticTokenSource t) = t"
| "Token_of (ReuseTokenSource cached new) =
     (case cached of
        Some t \<Rightarrow> if Valid t then t else Token_of new
      | None \<Rightarrow> Token_of new)"

definition Type :: "Token \<Rightarrow> string" where
  "Type t = (if TokenType t = [] then ''Bearer'' else TokenType t)"

definition SetAuthHeader :: "Token \<Rightarrow> Request \<Rightarrow> Request" where
  "SetAuthHeader t r =
     r\<lparr>Header := AList.update ''Authorization'' (Type t @ '' '' @ AccessToken t) (Header r)\<rparr>"

definition oauth2_NewClient :: "http_Client \<Rightarrow> TokenSource \<Rightarrow> http_Client" where
  "oauth2_NewClient cc src =
     \<lparr>Transport = OAuth2_Transport (ReuseTokenSource None src) (Transport cc),
      Timeout = Timeout cc\<rparr>"

fun send :: "RoundTripper \<Rightarrow> Request \<Rightarrow> Request" where
  "send (HTTP_Transport t) req = req"
| "send (OAuth2_Transport src base) req = send base (SetAuthHeader (Token_of src) req)"
| "send (Otel_Transport base) req = send base req"

text \<open>\<open>MCPInstance.newk6HTTPClient\<close>.\<close>

definition newk6HTTPClient :: "VU \<Rightarrow> ClientConfig \<Rightarrow> http_Client" where
  "newk6HTTPClient vu cfg =
    (let tlsConfig =
           (case State_TLSConfig (vu_State vu) of
              None \<Rightarrow> None
            | Some t \<Rightarrow> Some (t\<lparr>NextProtos := [''http/1.1'']\<rparr>));
         httpClient =
           \<lparr>Transport = HTTP_Transport
              \<lparr>DialContext = State_Dialer (vu_State vu),
               ProxyFromEnvironment = True,
               TLSClientConfig = tlsConfig,
               DisableKeepAlives =
                 (ValueOrZero (NoConnectionReuse (State_Options (vu_State vu))) \<or>
                  ValueOrZero (NoVUConnectionReuse (State_Options (vu_State vu))))\<rparr>,
            Timeout = cfg_Timeout cfg\<rparr>
     in if BearerToken (Auth cfg) \<noteq> [] then
          (let token = \<lparr>AccessToken = BearerToken (Auth cfg), TokenType = []\<rparr>;
               tokenSource = StaticTokenSource token
           in oauth2_NewClient httpClient tokenSource)
        else httpClient)"

subsection \<open>The three constructors\<close>

text \<open>
  A command (\<open>exec.Command(name, args...)\<close>): the name, the arguments with the name
  in front, the environment and whether the error output goes to \<open>os.Stderr\<close>.
  Nothing is started by building it. The transports of the SDK hold a command, or an
  endpoint and an HTTP client.
\<close>

record Cmd =
  cmd_Path :: string
  cmd_Args :: "string list"
  cmd_Env :: "string list"
  cmd_Stderr :: bool

datatype mcp_Transport =
    CommandTransport Cmd
  | SSEClientTransport string http_Client
  | StreamableClientTransport string http_Client

text \<open>
  \<open>client.Connect\<close> of the SDK opens the channel of the transport (it starts the
  command, it sends the first HTTP request) and shakes hands: a function of the
  world outside, which gives a session or an error and the world after the attempt.
  \<open>MCPInstance.connect\<close> throws a connection error when it fails;
  \<open>common.Throw\<close> is the outcome \<open>Inl\<close>.
\<close>

definition connect ::
  "('w \<Rightarrow> mcp_Transport \<Rightarrow> (error + 's) \<times> 'w) \<Rightarrow> 'w \<Rightarrow> mcp_Transport \<Rightarrow> bool \<Rightarrow>
   (error + 's) \<times> 'w" where
  "connect client_Connect w transport isSSE =
    (case client_Connect w transport of
       (Inl err, w') \<Rightarrow> (Inl (WrapError ''connection error: '' err), w')
     | (Inr sess, w') \<Rightarrow> (Inr sess, w'))"

text \<open>
  The constructors take the configuration as \<open>rt.ExportTo\<close> gives it: an error, or
  the \<open>ClientConfig\<close>. The client they return is the session with the tags and the
  sample channel of the state of the virtual user and with its context.
\<close>

definition newStdioClient ::
  "('w \<Rightarrow> mcp_Transport \<Rightarrow> (error + 's) \<times> 'w) \<Rightarrow> VU \<Rightarrow> 'w \<Rightarrow> error + ClientConfig \<Rightarrow>
   (error + 's Client) \<times> 'w" where
  "newStdioClient client_Connect vu w exported =
    (case exported of
       Inl err \<Rightarrow> (Inl (WrapError ''invalid config: '' err), w)
     | Inr cfg \<Rightarrow>
        (let cmd = \<lparr>cmd_Path = Path cfg, cmd_Args = Path cfg # Args cfg,
                    cmd_Env = map (\<lambda>(k, v). k @ ''='' @ v) (Env cfg),
                    cmd_Stderr = Debug cfg\<rparr>;
             transport = CommandTransport cmd
         in case connect client_Connect w transport False of
              (Inl err, w') \<Rightarrow> (Inl err, w')
            | (Inr sess, w') \<Rightarrow>
                (Inr \<lparr>session = sess, k6_Tags = State_Tags (vu_State vu),
                      k6_Samples = State_Samples (vu_State vu),
                      ctx_done = vu_Context_done vu\<rparr>, w')))"

definition newSSEClient ::
  "('w \<Rightarrow> mcp_Transport \<Rightarrow> (error + 's) \<times> 'w) \<Rightarrow> VU \<Rightarrow> 'w \<Rightarrow> error + ClientConfig \<Rightarrow>
   (error + 's Client) \<times> 'w" where
  "newSSEClient client_Connect vu w exported =
    (case exported of
       Inl err \<Rightarrow> (Inl (WrapError ''invalid config: '' err), w)
     | Inr cfg \<Rightarrow>
        (let transport = SSEClientTransport (BaseURL cfg) (newk6HTTPClient vu cfg)
         in case connect client_Connect w transport True of
              (Inl err, w') \<Rightarrow> (Inl err, w')
            | (Inr sess, w') \<Rightarrow>
                (Inr \<lparr>session = sess, k6_Tags = State_Tags (vu_State vu),
                      k6_Samples = State_Samples (vu_State vu),
                      ctx_done = vu_Context_done vu\<rparr>, w')))"

definition newStreamableHTTPClient ::
  "('w \<Rightarrow> mcp_Transport \<Rightarrow> (error + 's) \<times> 'w) \<Rightarrow> VU \<Rightarrow> 'w \<Rightarrow> error + ClientConfig \<Rightarrow>
   (error + 's Client) \<times> 'w" where
  "newStreamableHTTPClient client_Connect vu w exported =
    (case exported of
       Inl err \<Rightarrow> (Inl (WrapError ''invalid config: '' err), w)
     | Inr cfg \<Rightarrow>
        (let transport = StreamableClientTransport (BaseURL cfg) (newk6HTTPClient vu cfg)
         in case connect client_Connect w transport False of
              (Inl err, w') \<Rightarrow> (Inl err, w')
            | (Inr sess, w') \<Rightarrow>
                (Inr \<lparr>session = sess, k6_Tags = State_Tags (vu_State vu),
                      k6_Samples = State_Samples (vu_State vu),
                      ctx_done = vu_Context_done vu\<rparr>, w')))"

text \<open>
  A world for examples: the list of the transports handed to \<open>client.Connect\<close>,
  which fails on a command with no name (\<open>exec: no command\<close>) and on an endpoint
  with no URL, as the operating system and the HTTP client do, and gives the session
  \<open>()\<close> otherwise. And a state of a virtual user.
\<close>

definition logged_Connect ::
  "mcp_Transport list \<Rightarrow> mcp_Transport \<Rightarrow> (error + unit) \<times> mcp_Transport list" where
  "logged_Connect w transport =
    (case transport of
       CommandTransport cmd \<Rightarrow>
         (if cmd_Path cmd = [] then Inl (ErrorString ''exec: no command'') else Inr (),
          w @ [transport])
     | SSEClientTransport url c \<Rightarrow>
         (if url = [] then Inl (ErrorString ''unsupported protocol scheme'') else Inr (),
          w @ [transport])
     | StreamableClientTransport url c \<Rightarrow>
         (if url = [] then Inl (ErrorString ''unsupported protocol scheme'') else Inr (),
          w @ [transport]))"

definition vu0 :: VU where
  "vu0 = \<lparr>vu_State = \<lparr>State_Tags = [], State_Samples = [], State_TLSConfig = None,
                      State_Dialer = ''dialer'',
                      State_Options = \<lparr>NoConnectionReuse = None,
                                       NoVUConnectionReuse = None\<rparr>,
                      State_Transport = DefaultTransport,
                      State_TracerProvider = ''state''\<rparr>,
          vu_Context_done = False\<rparr>"

definition cfg0 :: ClientConfig where
  "cfg0 = \<lparr>Path = [], Args = [], Env = [], Debug = False, BaseURL = [],
           cfg_Timeout = 0, Auth = \<lparr>BearerToken = []\<rparr>\<rparr>"

text \<open>
  The configuration errors of the module are the errors it throws for the
  configuration: those with the prefix \<open>invalid config: \<close>.
\<close>

fun is_config_error :: "error \<Rightarrow> bool" where
  "is_config_error (WrapError prefix e) = (prefix = ''invalid config: '')"
| "is_config_error (ErrorString s) = False"

section \<open>mcp.go: the module that holds one session\<close>

text \<open>
  The module with \<open>Connect\<close>, \<open>ListTools\<close> and \<open>CallTool\<close> (\<open>Module\<close>, with
  the embedded \<open>MCP\<close>). Here \<open>m.vu.State()\<close> is tested for nil, so the state of
  the virtual user is an option; so is the session, which is nil until \<open>Connect\<close>
  has succeeded, and the tracer, which \<open>getTracer\<close> fetches at its first call. The
  spans started and ended are kept as a list of span name and \<open>rpc.method\<close>.
\<close>

definition connectSpanName :: string where
  "connectSpanName = ''Connect''"



definition connectMethodName :: string where
  "connectMethodName = ''connect''"

record Config =
  Config_BaseURL :: string
  Config_Auth :: AuthConfig
  TracingEnabled :: bool

record 's MCP =
  m_State :: "State option"
  m_InitEnv_TracerProvider :: string
  m_session :: "'s option"
  m_tracer :: "string option"
  m_spans :: "(string \<times> string) list"

definition getTracer :: "'s MCP \<Rightarrow> string \<times> 's MCP" where
  "getTracer m =
    (case m_tracer m of
       Some t \<Rightarrow> (t, m)
     | None \<Rightarrow>
        (let t = (case m_State m of
                    None \<Rightarrow> m_InitEnv_TracerProvider m
                  | Some st \<Rightarrow> State_TracerProvider st)
         in (t, m\<lparr>m_tracer := Some t\<rparr>)))"

definition getK6Transport :: "'s MCP \<Rightarrow> RoundTripper" where
  "getK6Transport m =
    (case m_State m of
       Some st \<Rightarrow> State_Transport st
     | None \<Rightarrow> DefaultTransport)"

text \<open>
  \<open>Module.pushRequestMetrics\<close>: nothing without a state of the virtual user;
  otherwise the samples go to the channel of the state, under
  \<open>context.Background()\<close>, which is never done.
\<close>

definition Module_pushRequestMetrics ::
  "'s MCP \<Rightarrow> string \<Rightarrow> int \<Rightarrow> error option \<Rightarrow> 's MCP" where
  "Module_pushRequestMetrics m method duration err =
    (case m_State m of
       None \<Rightarrow> m
     | Some st \<Rightarrow>
        (let tags = With (State_Tags st) ''method'' method;
             s1 = PushIfNotDone False (State_Samples st)
                    \<lparr>Metric = requestDurationName, Tags = tags,
                     Value = real_of_int duration / real_of_int Millisecond\<rparr>;
             s2 = PushIfNotDone False s1
                    \<lparr>Metric = requestCountName, Tags = tags, Value = 1\<rparr>
         in if err \<noteq> None then
              m\<lparr>m_State := Some (st\<lparr>State_Samples := PushIfNotDone False s2
                     \<lparr>Metric = requestErrorsName, Tags = tags, Value = 1\<rparr>\<rparr>)\<rparr>
            else m\<lparr>m_State := Some (st\<lparr>State_Samples := s2\<rparr>)\<rparr>))"

text \<open>
  \<open>Module.Connect\<close>, on the module and the world outside; the error returned is
  nil (\<open>None\<close>) on success.
\<close>

definition Module_Connect ::
  "('w \<Rightarrow> int) \<Rightarrow> ('w \<Rightarrow> mcp_Transport \<Rightarrow> (error + 's) \<times> 'w) \<Rightarrow> Config \<Rightarrow> 's MCP \<Rightarrow> 'w \<Rightarrow>
   error option \<times> 's MCP \<times> 'w" where
  "Module_Connect now client_Connect cfg m w =
    (if m_session m \<noteq> None then (None, m, w)
     else
      (let baseTransport = Otel_Transport (getK6Transport m);
           httpClient = \<lparr>Transport = baseTransport, Timeout = 0\<rparr>;
           httpClient' =
             (if BearerToken (Config_Auth cfg) \<noteq> [] then
                oauth2_NewClient httpClient
                  (StaticTokenSource
                     \<lparr>AccessToken = BearerToken (Config_Auth cfg), TokenType = []\<rparr>)
              else httpClient);
           mcpTransport = StreamableClientTransport (Config_BaseURL cfg) httpClient';
           startTime = now w;
           (tracer, m1) = getTracer m;
           (res, w') = client_Connect w mcpTransport;
           duration = now w' - startTime;
           m2 = m1\<lparr>m_spans := m_spans m1 @ [(connectSpanName, connectMethodName)]\<rparr>;
           m3 = Module_pushRequestMetrics m2 connectMethodName duration (err_of res)
       in case res of
            Inl err \<Rightarrow> (Some err, m3, w')
          | Inr sess \<Rightarrow> (None, m3\<lparr>m_session := Some sess\<rparr>, w')))"



text \<open>A module outside a virtual user, not connected, and one with a session.\<close>

definition mcp0 :: "'s option \<Rightarrow> 's MCP" where
  "mcp0 s = \<lparr>m_State = None, m_InitEnv_TracerProvider = ''init'', m_session = s,
             m_tracer = None, m_spans = []\<rparr>"

section \<open>Properties: request metrics\<close>

lemma Push_success:
  "samples (Push k False method d None) =
     samples k @
       [\<lparr>Metric = requestDuration k, Tags = With (tagsAndMeta k) ''method'' method,
         Value = real_of_int d / 1000000\<rparr>,
        \<lparr>Metric = requestCount k, Tags = With (tagsAndMeta k) ''method'' method,
         Value = 1\<rparr>]"
  by (simp add: Push_def PushIfNotDone_def Millisecond_def Let_def)

lemma Push_failure:
  "samples (Push k False method d (Some e)) =
     samples k @
       [\<lparr>Metric = requestDuration k, Tags = With (tagsAndMeta k) ''method'' method,
         Value = real_of_int d / 1000000\<rparr>,
        \<lparr>Metric = requestCount k, Tags = With (tagsAndMeta k) ''method'' method,
         Value = 1\<rparr>,
        \<lparr>Metric = requestErrors k, Tags = With (tagsAndMeta k) ''method'' method,
         Value = 1\<rparr>,
        \<lparr>Metric = requestErrorsDuration k, Tags = With (tagsAndMeta k) ''method'' method,
         Value = real_of_int d / 1000000\<rparr>]"
  by (simp add: Push_def PushIfNotDone_def Millisecond_def Let_def)

lemma Push_done:
  "samples (Push k True method d err) = samples k"
  by (simp add: Push_def PushIfNotDone_def Let_def)

lemma pushRequestMetrics_success:
  "k6_Samples (pushRequestMetrics c method d None) =
     (if ctx_done c then k6_Samples c
      else k6_Samples c @
       [\<lparr>Metric = requestDurationName, Tags = With (k6_Tags c) ''method'' method,
         Value = real_of_int d / 1000000\<rparr>,
        \<lparr>Metric = requestCountName, Tags = With (k6_Tags c) ''method'' method,
         Value = 1\<rparr>])"
  by (simp add: pushRequestMetrics_def PushIfNotDone_def Millisecond_def Let_def)

lemma pushRequestMetrics_failure:
  "k6_Samples (pushRequestMetrics c method d (Some e)) =
     (if ctx_done c then k6_Samples c
      else k6_Samples c @
       [\<lparr>Metric = requestDurationName, Tags = With (k6_Tags c) ''method'' method,
         Value = real_of_int d / 1000000\<rparr>,
        \<lparr>Metric = requestCountName, Tags = With (k6_Tags c) ''method'' method,
         Value = 1\<rparr>,
        \<lparr>Metric = requestErrorsName, Tags = With (k6_Tags c) ''method'' method,
         Value = 1\<rparr>])"
  by (simp add: pushRequestMetrics_def PushIfNotDone_def Millisecond_def Let_def)

text \<open>
  C1. A failing call recorded through \<open>K6Metrics.Push\<close> with a live context: a
  \<open>tools/call\<close> that took 5 ms and failed sends four samples to an empty channel,
  the duration, the count, the error count and a fourth sample of the metric
  \<open>mcp_request_errors_duration\<close>; a successful one sends two.
\<close>

theorem Push_failing_call_emits_four_samples:
  "samples (Push (NewK6Metrics [] [(''group'', '''')]) False ''tools/call'' 5000000
              (Some (ErrorString ''unknown tool''))) =
     [\<lparr>Metric = ''mcp_request_duration'',
       Tags = [(''group'', ''''), (''method'', ''tools/call'')], Value = 5\<rparr>,
      \<lparr>Metric = ''mcp_request_count'',
       Tags = [(''group'', ''''), (''method'', ''tools/call'')], Value = 1\<rparr>,
      \<lparr>Metric = ''mcp_request_errors'',
       Tags = [(''group'', ''''), (''method'', ''tools/call'')], Value = 1\<rparr>,
      \<lparr>Metric = ''mcp_request_errors_duration'',
       Tags = [(''group'', ''''), (''method'', ''tools/call'')], Value = 5\<rparr>]
   \<and> length (samples (Push (NewK6Metrics [] [(''group'', '''')]) False ''tools/call'' 5000000
              (Some (ErrorString ''unknown tool'')))) = 4
   \<and> length (samples (Push (NewK6Metrics [] [(''group'', '''')]) False ''tools/call'' 5000000
              None)) = 2"
  by (simp add: Push_def PushIfNotDone_def Millisecond_def NewK6Metrics_def With_def Let_def
        requestDurationName_def requestCountName_def requestErrorsName_def
        requestErrorsDurationName_def)

section \<open>Properties: listing all pages\<close>

lemma session_pushRequestMetrics [simp]:
  "session (pushRequestMetrics c method d err) = session c"
  by (simp add: pushRequestMetrics_def Let_def)

lemma append_nonnil_acc: "append_nonnil all ts = all @ append_nonnil [] ts"
proof (induction ts arbitrary: all)
  case Nil
  show ?case by simp
next
  case (Cons t ts)
  show ?case
  proof (cases t)
    case None
    then show ?thesis using Cons.IH [of all] by simp
  next
    case (Some x)
    then show ?thesis using Cons.IH [of "all @ [x]"] Cons.IH [of "[x]"] by simp
  qed
qed

lemma append_nonnil_filter:
  "map Some (append_nonnil [] ts) = filter (\<lambda>t. t \<noteq> None) ts"
proof (induction ts)
  case Nil
  show ?case by simp
next
  case (Cons t ts)
  then show ?case
    by (cases t) (simp_all add: append_nonnil_acc [of "[x]" for x])
qed

lemma ListAll_loop_serves:
  "serves f meta (session c) cursor ps \<Longrightarrow>
   \<exists>c'. ListAll_loop now f method meta c cursor all =
           Some (None, all @ nonnil_items ps, c')"
proof (induction ps arbitrary: c cursor all)
  case Nil
  then show ?case by simp
next
  case (Cons p ps)
  obtain res s' where f: "f (session c) \<lparr>Meta = meta, Cursor = cursor\<rparr> = (res, s')"
    by (cases "f (session c) \<lparr>Meta = meta, Cursor = cursor\<rparr>")
  from Cons.prems f have res: "res = Inr p"
    by (cases res) auto
  let ?c' = "pushRequestMetrics (c\<lparr>session := s'\<rparr>) method (now s' - now (session c)) None"
  let ?all' = "append_nonnil all (Items p)"
  show ?case
  proof (cases "ps = []")
    case True
    with Cons.prems f res have "NextCursor p = []" by simp
    then have "ListAll_loop now f method meta c cursor all = Some (None, ?all', ?c')"
      by (subst ListAll_loop.simps) (simp add: f res)
    then show ?thesis
      using True by (simp add: nonnil_items_def append_nonnil_acc [of all])
  next
    case False
    with Cons.prems f res have nc: "NextCursor p \<noteq> []"
      and rest: "serves f meta s' (NextCursor p) ps" by simp_all
    from rest have "serves f meta (session ?c') (NextCursor p) ps" by simp
    from Cons.IH [OF this, of ?all'] obtain c'' where
      "ListAll_loop now f method meta ?c' (NextCursor p) ?all' =
         Some (None, ?all' @ nonnil_items ps, c'')" by blast
    then have "ListAll_loop now f method meta c cursor all =
         Some (None, ?all' @ nonnil_items ps, c'')"
      by (subst ListAll_loop.simps) (simp add: f res nc)
    then show ?thesis
      by (simp add: nonnil_items_def append_nonnil_acc [of all])
  qed
qed

lemma ListAll_loop_fails_after:
  "fails_after f meta (session c) cursor ps e \<Longrightarrow>
   \<exists>c'. ListAll_loop now f method meta c cursor all =
           Some (Some e, all @ nonnil_items ps, c')"
proof (induction ps arbitrary: c cursor all)
  case Nil
  obtain res s' where f: "f (session c) \<lparr>Meta = meta, Cursor = cursor\<rparr> = (res, s')"
    by (cases "f (session c) \<lparr>Meta = meta, Cursor = cursor\<rparr>")
  with Nil have res: "res = Inl e" by simp
  show ?case
    by (subst ListAll_loop.simps) (simp add: f res nonnil_items_def)
next
  case (Cons p ps)
  obtain res s' where f: "f (session c) \<lparr>Meta = meta, Cursor = cursor\<rparr> = (res, s')"
    by (cases "f (session c) \<lparr>Meta = meta, Cursor = cursor\<rparr>")
  from Cons.prems f have res: "res = Inr p"
    by (cases res) auto
  let ?c' = "pushRequestMetrics (c\<lparr>session := s'\<rparr>) method (now s' - now (session c)) None"
  let ?all' = "append_nonnil all (Items p)"
  from Cons.prems f res have nc: "NextCursor p \<noteq> []"
    and rest: "fails_after f meta s' (NextCursor p) ps e" by simp_all
  from rest have "fails_after f meta (session ?c') (NextCursor p) ps e" by simp
  from Cons.IH [OF this, of ?all'] obtain c'' where
    "ListAll_loop now f method meta ?c' (NextCursor p) ?all' =
       Some (Some e, ?all' @ nonnil_items ps, c'')" by blast
  then have "ListAll_loop now f method meta c cursor all =
       Some (Some e, ?all' @ nonnil_items ps, c'')"
    by (subst ListAll_loop.simps) (simp add: f res nc)
  then show ?case
    by (simp add: nonnil_items_def append_nonnil_acc [of all])
qed

lemma ListAll_loop_returns_only_if:
  assumes "ListAll_loop now f method meta c cursor all = Some y"
  shows "(\<exists>ps. serves f meta (session c) cursor ps) \<or>
         (\<exists>ps e. fails_after f meta (session c) cursor ps e)"
proof (rule ListAll_loop.raw_induct
    [where P = "\<lambda>now f method meta c cursor all y.
       (\<exists>ps. serves f meta (session c) cursor ps) \<or>
       (\<exists>ps e. fails_after f meta (session c) cursor ps e)", OF _ assms], goal_cases)
  case (1 loop now f mth meta c cursor all y)
  obtain res s' where f: "f (session c) \<lparr>Meta = meta, Cursor = cursor\<rparr> = (res, s')"
    by (cases "f (session c) \<lparr>Meta = meta, Cursor = cursor\<rparr>")
  show ?case
  proof (cases res)
    case (Inl e)
    with f have "fails_after f meta (session c) cursor [] e" by simp
    then show ?thesis by blast
  next
    case (Inr p)
    show ?thesis
    proof (cases "NextCursor p = []")
      case True
      with f Inr have "serves f meta (session c) cursor [p]" by simp
      then show ?thesis by blast
    next
      case False
      let ?c' = "pushRequestMetrics (c\<lparr>session := s'\<rparr>) mth (now s' - now (session c)) None"
      from 1(2) f Inr False
      have "loop now f mth meta ?c' (NextCursor p) (append_nonnil all (Items p)) = Some y"
        by simp
      from 1(1) [OF this] have
        "(\<exists>ps. serves f meta s' (NextCursor p) ps) \<or>
         (\<exists>ps e. fails_after f meta s' (NextCursor p) ps e)" by simp
      then show ?thesis
      proof
        assume "\<exists>ps. serves f meta s' (NextCursor p) ps"
        then obtain ps where ps: "serves f meta s' (NextCursor p) ps" by blast
        then have "ps \<noteq> []" by (cases ps) auto
        with ps f Inr False have "serves f meta (session c) cursor (p # ps)" by simp
        then show ?thesis by blast
      next
        assume "\<exists>ps e. fails_after f meta s' (NextCursor p) ps e"
        then obtain ps e where "fails_after f meta s' (NextCursor p) ps e" by blast
        with f Inr False have "fails_after f meta (session c) cursor (p # ps) e" by simp
        then show ?thesis by blast
      qed
    qed
  qed
qed

lemma ListAll_loop_stuck:
  "ListAll_loop now stuck method meta c cursor all = None"
proof -
  have "f = stuck \<longrightarrow> False"
    if "ListAll_loop now f method meta c cursor all = Some y" for f y
  proof (rule ListAll_loop.raw_induct
      [where P = "\<lambda>now f method meta c cursor all y. f = stuck \<longrightarrow> False", OF _ that],
      goal_cases)
    case (1 loop now f mth meta c cursor all y)
    show ?case
    proof
      assume st: "f = stuck"
      with 1(2) have
        "loop now f mth meta
           (pushRequestMetrics (c\<lparr>session := ()\<rparr>) mth (now () - now (session c)) None)
           ''again'' (append_nonnil all [Some 0]) = Some y"
        by (simp add: stuck_def)
      from 1(1) [OF this] st show False by simp
    qed
  qed
  then show ?thesis by (cases "ListAll_loop now stuck method meta c cursor all") auto
qed

lemma nonnil_items_filter:
  "map Some (nonnil_items ps) = filter (\<lambda>t. t \<noteq> None) (page_items ps)"
  by (induction ps) (simp_all add: nonnil_items_def page_items_def append_nonnil_filter)

lemma nonnil_items_length:
  "length (nonnil_items ps) \<le> length (page_items ps)"
proof -
  have "length (nonnil_items ps) = length (map Some (nonnil_items ps))" by simp
  also have "\<dots> \<le> length (page_items ps)"
    unfolding nonnil_items_filter by (rule length_filter_le)
  finally show ?thesis .
qed

lemma nonnil_items_shorter:
  assumes "None \<in> set (page_items ps)"
  shows "length (nonnil_items ps) < length (page_items ps)"
proof -
  have "length (nonnil_items ps) = length (map Some (nonnil_items ps))" by simp
  also have "\<dots> < length (page_items ps)"
    unfolding nonnil_items_filter using assms by (rule length_filter_less) simp
  finally show ?thesis .
qed

lemma nonnil_items_all:
  assumes "None \<notin> set (page_items ps)"
  shows "map Some (nonnil_items ps) = page_items ps"
proof -
  have "\<forall>t\<in>set (page_items ps). t \<noteq> None"
    using assms by metis
  then have "filter (\<lambda>t. t \<noteq> None) (page_items ps) = page_items ps"
    by (rule filter_True)
  then show ?thesis by (simp add: nonnil_items_filter)
qed

lemma ListAllTools_serves:
  assumes "serves f (normMeta r) (session c) [] ps"
  shows "map_option fst (ListAllTools now f c r) =
           Some (Some \<lparr>Tools = nonnil_items ps\<rparr>, None)"
proof -
  from ListAll_loop_serves [OF assms, of now listToolsMethodName "[]"]
  obtain c' where "ListAll_loop now f listToolsMethodName (normMeta r) c [] [] =
      Some (None, nonnil_items ps, c')" by auto
  then show ?thesis by (simp add: ListAllTools_def normMeta_def)
qed

lemma ListAllResources_serves:
  assumes "serves f (normMeta r) (session c) [] ps"
  shows "map_option fst (ListAllResources now f c r) =
           Some (Some \<lparr>Resources = nonnil_items ps\<rparr>, None)"
proof -
  from ListAll_loop_serves [OF assms, of now listResourcesMethodName "[]"]
  obtain c' where "ListAll_loop now f listResourcesMethodName (normMeta r) c [] [] =
      Some (None, nonnil_items ps, c')" by auto
  then show ?thesis by (simp add: ListAllResources_def normMeta_def)
qed

lemma ListAllPrompts_serves:
  assumes "serves f (normMeta r) (session c) [] ps"
  shows "map_option fst (ListAllPrompts now f c r) =
           Some (Some \<lparr>Prompts = nonnil_items ps\<rparr>, None)"
proof -
  from ListAll_loop_serves [OF assms, of now listPromptsMethodName "[]"]
  obtain c' where "ListAll_loop now f listPromptsMethodName (normMeta r) c [] [] =
      Some (None, nonnil_items ps, c')" by auto
  then show ?thesis by (simp add: ListAllPrompts_def normMeta_def)
qed

lemma ListAllTools_fails_after:
  assumes "fails_after f (normMeta r) (session c) [] ps e"
  shows "map_option fst (ListAllTools now f c r) =
           Some (None, Some (WrapError ''failed to list tools: '' e))"
proof -
  from ListAll_loop_fails_after [OF assms, of now listToolsMethodName "[]"]
  obtain c' where "ListAll_loop now f listToolsMethodName (normMeta r) c [] [] =
      Some (Some e, nonnil_items ps, c')" by auto
  then show ?thesis by (simp add: ListAllTools_def normMeta_def)
qed

lemma ListAllResources_fails_after:
  assumes "fails_after f (normMeta r) (session c) [] ps e"
  shows "map_option fst (ListAllResources now f c r) =
           Some (None, Some (WrapError ''failed to list resources: '' e))"
proof -
  from ListAll_loop_fails_after [OF assms, of now listResourcesMethodName "[]"]
  obtain c' where "ListAll_loop now f listResourcesMethodName (normMeta r) c [] [] =
      Some (Some e, nonnil_items ps, c')" by auto
  then show ?thesis by (simp add: ListAllResources_def normMeta_def)
qed

lemma ListAllPrompts_fails_after:
  assumes "fails_after f (normMeta r) (session c) [] ps e"
  shows "map_option fst (ListAllPrompts now f c r) =
           Some (None, Some (WrapError ''failed to list prompts: '' e))"
proof -
  from ListAll_loop_fails_after [OF assms, of now listPromptsMethodName "[]"]
  obtain c' where "ListAll_loop now f listPromptsMethodName (normMeta r) c [] [] =
      Some (Some e, nonnil_items ps, c')" by auto
  then show ?thesis by (simp add: ListAllPrompts_def normMeta_def)
qed

lemma ListAll_loop_returns_iff:
  "(ListAll_loop now f method meta c cursor all \<noteq> None) =
   ((\<exists>ps. serves f meta (session c) cursor ps) \<or>
    (\<exists>ps e. fails_after f meta (session c) cursor ps e))"
proof
  assume "ListAll_loop now f method meta c cursor all \<noteq> None"
  then obtain y where "ListAll_loop now f method meta c cursor all = Some y" by auto
  then show "(\<exists>ps. serves f meta (session c) cursor ps) \<or>
    (\<exists>ps e. fails_after f meta (session c) cursor ps e)"
    by (rule ListAll_loop_returns_only_if)
next
  assume "(\<exists>ps. serves f meta (session c) cursor ps) \<or>
    (\<exists>ps e. fails_after f meta (session c) cursor ps e)"
  then show "ListAll_loop now f method meta c cursor all \<noteq> None"
  proof
    assume "\<exists>ps. serves f meta (session c) cursor ps"
    then obtain ps where "serves f meta (session c) cursor ps" by blast
    from ListAll_loop_serves [OF this, of now "method" all] show ?thesis by auto
  next
    assume "\<exists>ps e. fails_after f meta (session c) cursor ps e"
    then obtain ps e where "fails_after f meta (session c) cursor ps e" by blast
    from ListAll_loop_fails_after [OF this, of now "method" all] show ?thesis by auto
  qed
qed

lemma ListAllTools_None:
  "(ListAllTools now f c r = None) =
   (ListAll_loop now f listToolsMethodName (normMeta r) c [] [] = None)"
  by (simp add: ListAllTools_def normMeta_def split: option.splits prod.splits)

lemma ListAllResources_None:
  "(ListAllResources now f c r = None) =
   (ListAll_loop now f listResourcesMethodName (normMeta r) c [] [] = None)"
  by (simp add: ListAllResources_def normMeta_def split: option.splits prod.splits)

lemma ListAllPrompts_None:
  "(ListAllPrompts now f c r = None) =
   (ListAll_loop now f listPromptsMethodName (normMeta r) c [] [] = None)"
  by (simp add: ListAllPrompts_def normMeta_def split: option.splits prod.splits)

text \<open>
  C2 (as amended). When the session answers the pages \<open>ps\<close>, every page but the
  last with a next cursor and the last one without, \<open>ListAllTools\<close>,
  \<open>ListAllResources\<close> and \<open>ListAllPrompts\<close> return, without error, the values of
  the items of the pages that are not nil, in order. These are all the items of the
  pages when no item is nil.
\<close>

theorem ListAll_returns_nonnil_items_in_order:
  assumes "serves f (normMeta r) (session c) [] ps"
  shows "map_option fst (ListAllTools now f c r) =
           Some (Some \<lparr>Tools = nonnil_items ps\<rparr>, None)
       \<and> map_option fst (ListAllResources now f c r) =
           Some (Some \<lparr>Resources = nonnil_items ps\<rparr>, None)
       \<and> map_option fst (ListAllPrompts now f c r) =
           Some (Some \<lparr>Prompts = nonnil_items ps\<rparr>, None)
       \<and> map Some (nonnil_items ps) = filter (\<lambda>t. t \<noteq> None) (page_items ps)
       \<and> (None \<notin> set (page_items ps) \<longrightarrow> map Some (nonnil_items ps) = page_items ps)"
proof -
  have "None \<notin> set (page_items ps) \<longrightarrow> map Some (nonnil_items ps) = page_items ps"
    using nonnil_items_all [of ps] by blast
  with assms show ?thesis
    by (simp only: ListAllTools_serves ListAllResources_serves ListAllPrompts_serves
          nonnil_items_filter simp_thms)
qed

text \<open>Two pages of three tools in all, none of them nil.\<close>

theorem ListAll_returns_nonnil_items_in_order_witness:
  "serves scripted (Some [])
     [Inr \<lparr>Items = [Some (1::nat), Some 2], NextCursor = ''next''\<rparr>,
      Inr \<lparr>Items = [Some 3], NextCursor = ''''\<rparr>] ''''
     [\<lparr>Items = [Some 1, Some 2], NextCursor = ''next''\<rparr>,
      \<lparr>Items = [Some 3], NextCursor = ''''\<rparr>]
   \<and> map_option fst
       (ListAllTools (\<lambda>s. 0) scripted
          (client0 [Inr \<lparr>Items = [Some (1::nat), Some 2], NextCursor = ''next''\<rparr>,
                    Inr \<lparr>Items = [Some 3], NextCursor = ''''\<rparr>])
          \<lparr>ListAll_Meta = None\<rparr>) =
     Some (Some \<lparr>Tools = [1, 2, 3]\<rparr>, None)
   \<and> map_option fst
       (ListAllResources (\<lambda>s. 0) scripted
          (client0 [Inr \<lparr>Items = [Some (1::nat), Some 2], NextCursor = ''next''\<rparr>,
                    Inr \<lparr>Items = [Some 3], NextCursor = ''''\<rparr>])
          \<lparr>ListAll_Meta = None\<rparr>) =
     Some (Some \<lparr>Resources = [1, 2, 3]\<rparr>, None)
   \<and> map_option fst
       (ListAllPrompts (\<lambda>s. 0) scripted
          (client0 [Inr \<lparr>Items = [Some (1::nat), Some 2], NextCursor = ''next''\<rparr>,
                    Inr \<lparr>Items = [Some 3], NextCursor = ''''\<rparr>])
          \<lparr>ListAll_Meta = None\<rparr>) =
     Some (Some \<lparr>Prompts = [1, 2, 3]\<rparr>, None)
   \<and> map Some [1, 2, 3::nat] =
       page_items [\<lparr>Items = [Some 1, Some 2], NextCursor = ''next''\<rparr>,
                   \<lparr>Items = [Some 3], NextCursor = ''''\<rparr>]"
proof -
  let ?p1 = "\<lparr>Items = [Some (1::nat), Some 2], NextCursor = ''next''\<rparr>"
  let ?p2 = "\<lparr>Items = [Some (3::nat)], NextCursor = ''''\<rparr>"
  have s: "serves scripted (normMeta \<lparr>ListAll_Meta = None\<rparr>)
             (session (client0 [Inr ?p1, Inr ?p2])) [] [?p1, ?p2]"
    by (simp add: scripted_def normMeta_def client0_def)
  from ListAll_returns_nonnil_items_in_order [OF s, of "\<lambda>s. 0"] s show ?thesis
    by (simp add: nonnil_items_def page_items_def normMeta_def client0_def)
qed

text \<open>
  The claim as it is written fails on a page with a nil item: of the three items of
  these two pages, the second one nil, two are returned.
\<close>

theorem ListAll_returns_items_with_nil_counterexample:
  "serves scripted (Some [])
     [Inr \<lparr>Items = [Some (1::nat), None], NextCursor = ''next''\<rparr>,
      Inr \<lparr>Items = [Some 2], NextCursor = ''''\<rparr>] ''''
     [\<lparr>Items = [Some 1, None], NextCursor = ''next''\<rparr>,
      \<lparr>Items = [Some 2], NextCursor = ''''\<rparr>]
   \<and> map_option fst
       (ListAllTools (\<lambda>s. 0) scripted
          (client0 [Inr \<lparr>Items = [Some (1::nat), None], NextCursor = ''next''\<rparr>,
                    Inr \<lparr>Items = [Some 2], NextCursor = ''''\<rparr>])
          \<lparr>ListAll_Meta = None\<rparr>) =
     Some (Some \<lparr>Tools = [1, 2]\<rparr>, None)
   \<and> map Some [1, 2::nat] \<noteq>
       page_items [\<lparr>Items = [Some 1, None], NextCursor = ''next''\<rparr>,
                   \<lparr>Items = [Some 2], NextCursor = ''''\<rparr>]"
proof -
  let ?p1 = "\<lparr>Items = [Some (1::nat), None], NextCursor = ''next''\<rparr>"
  let ?p2 = "\<lparr>Items = [Some (2::nat)], NextCursor = ''''\<rparr>"
  have s: "serves scripted (normMeta \<lparr>ListAll_Meta = None\<rparr>)
             (session (client0 [Inr ?p1, Inr ?p2])) [] [?p1, ?p2]"
    by (simp add: scripted_def normMeta_def client0_def)
  from ListAllTools_serves [OF s, of "\<lambda>s. 0"] s show ?thesis
    by (simp add: nonnil_items_def page_items_def normMeta_def client0_def)
qed

text \<open>
  C3. When the session answers the pages \<open>ps\<close>, each with a next cursor, and then
  fails with the error \<open>e\<close>, \<open>ListAllTools\<close>, \<open>ListAllResources\<close> and
  \<open>ListAllPrompts\<close> return no result (nil) and the error \<open>e\<close> wrapped under the
  name of what was listed: the items of the pages \<open>ps\<close> are not returned.
\<close>

theorem ListAll_page_error_discards_items:
  assumes "fails_after f (normMeta r) (session c) [] ps e"
  shows "map_option fst (ListAllTools now f c r) =
           Some (None, Some (WrapError ''failed to list tools: '' e))
       \<and> map_option fst (ListAllResources now f c r) =
           Some (None, Some (WrapError ''failed to list resources: '' e))
       \<and> map_option fst (ListAllPrompts now f c r) =
           Some (None, Some (WrapError ''failed to list prompts: '' e))
       \<and> Unwrap (WrapError ''failed to list tools: '' e) = Some e
       \<and> Error_msg (WrapError ''failed to list tools: '' e) =
           ''failed to list tools: '' @ Error_msg e"
  using assms
  by (simp only: ListAllTools_fails_after ListAllResources_fails_after
        ListAllPrompts_fails_after Unwrap.simps Error_msg.simps simp_thms)

text \<open>One page of two tools, then a failure of the second request.\<close>

theorem ListAll_page_error_discards_items_witness:
  "fails_after scripted (Some [])
     [Inr \<lparr>Items = [Some (1::nat), Some 2], NextCursor = ''next''\<rparr>,
      Inl (ErrorString ''connection closed'')] ''''
     [\<lparr>Items = [Some 1, Some 2], NextCursor = ''next''\<rparr>]
     (ErrorString ''connection closed'')
   \<and> map_option fst
       (ListAllTools (\<lambda>s. 0) scripted
          (client0 [Inr \<lparr>Items = [Some (1::nat), Some 2], NextCursor = ''next''\<rparr>,
                    Inl (ErrorString ''connection closed'')])
          \<lparr>ListAll_Meta = None\<rparr>) =
     Some (None, Some (WrapError ''failed to list tools: '' (ErrorString ''connection closed'')))
   \<and> map_option fst
       (ListAllResources (\<lambda>s. 0) scripted
          (client0 [Inr \<lparr>Items = [Some (1::nat), Some 2], NextCursor = ''next''\<rparr>,
                    Inl (ErrorString ''connection closed'')])
          \<lparr>ListAll_Meta = None\<rparr>) =
     Some (None, Some (WrapError ''failed to list resources: '' (ErrorString ''connection closed'')))
   \<and> map_option fst
       (ListAllPrompts (\<lambda>s. 0) scripted
          (client0 [Inr \<lparr>Items = [Some (1::nat), Some 2], NextCursor = ''next''\<rparr>,
                    Inl (ErrorString ''connection closed'')])
          \<lparr>ListAll_Meta = None\<rparr>) =
     Some (None, Some (WrapError ''failed to list prompts: '' (ErrorString ''connection closed'')))
   \<and> Error_msg (WrapError ''failed to list tools: '' (ErrorString ''connection closed'')) =
       ''failed to list tools: connection closed''"
proof -
  let ?p1 = "\<lparr>Items = [Some (1::nat), Some 2], NextCursor = ''next''\<rparr>"
  let ?e = "ErrorString ''connection closed''"
  have s: "fails_after scripted (normMeta \<lparr>ListAll_Meta = None\<rparr>)
             (session (client0 [Inr ?p1, Inl ?e])) [] [?p1] ?e"
    by (simp add: scripted_def normMeta_def client0_def)
  from ListAll_page_error_discards_items [OF s, of "\<lambda>s. 0"] s show ?thesis
    by (simp add: normMeta_def client0_def)
qed

text \<open>
  C4 (as amended). The loop has no bound on its iterations and does not look for a
  repeated cursor. \<open>ListAllTools\<close>, \<open>ListAllResources\<close> and \<open>ListAllPrompts\<close>
  return exactly when the session, asked with the cursor of each page in turn,
  comes to a page without a next cursor or to an error.
\<close>

theorem ListAll_returns_iff_session_ends:
  "(ListAllTools now f c r \<noteq> None) =
     ((\<exists>ps. serves f (normMeta r) (session c) [] ps) \<or>
      (\<exists>ps e. fails_after f (normMeta r) (session c) [] ps e))
   \<and> (ListAllResources now f c r \<noteq> None) =
     ((\<exists>ps. serves f (normMeta r) (session c) [] ps) \<or>
      (\<exists>ps e. fails_after f (normMeta r) (session c) [] ps e))
   \<and> (ListAllPrompts now f c r \<noteq> None) =
     ((\<exists>ps. serves f (normMeta r) (session c) [] ps) \<or>
      (\<exists>ps e. fails_after f (normMeta r) (session c) [] ps e))"
  by (simp only: ListAllTools_None ListAllResources_None ListAllPrompts_None
        ListAll_loop_returns_iff simp_thms)

text \<open>A session that ends after one page: the call returns.\<close>

theorem ListAll_returns_iff_session_ends_witness:
  "ListAllTools (\<lambda>s. 0) scripted
     (client0 [Inr \<lparr>Items = [Some (1::nat)], NextCursor = ''''\<rparr>])
     \<lparr>ListAll_Meta = None\<rparr> \<noteq> None"
proof -
  let ?p1 = "\<lparr>Items = [Some (1::nat)], NextCursor = ''''\<rparr>"
  have s: "serves scripted (normMeta \<lparr>ListAll_Meta = None\<rparr>)
             (session (client0 [Inr ?p1])) [] [?p1]"
    by (simp add: scripted_def normMeta_def client0_def)
  then have "\<exists>ps. serves scripted (normMeta \<lparr>ListAll_Meta = None\<rparr>)
             (session (client0 [Inr ?p1])) [] ps" by blast
  with ListAll_returns_iff_session_ends
         [of "\<lambda>s. 0" scripted "client0 [Inr ?p1]" "\<lparr>ListAll_Meta = None\<rparr>"]
  show ?thesis by blast
qed

text \<open>
  The claim as it is written fails on a session that answers every request with a
  page and the same next cursor: the three calls never return.
\<close>

theorem ListAll_same_cursor_forever_counterexample:
  "ListAllTools (\<lambda>s. 0) stuck (client0 ()) \<lparr>ListAll_Meta = None\<rparr> = None
   \<and> ListAllResources (\<lambda>s. 0) stuck (client0 ()) \<lparr>ListAll_Meta = None\<rparr> = None
   \<and> ListAllPrompts (\<lambda>s. 0) stuck (client0 ()) \<lparr>ListAll_Meta = None\<rparr> = None"
  by (simp only: ListAllTools_None ListAllResources_None ListAllPrompts_None
        ListAll_loop_stuck simp_thms)

text \<open>
  C10. The items of the pages that are nil are dropped: when the session answers the
  pages \<open>ps\<close>, what \<open>ListAllTools\<close>, \<open>ListAllResources\<close> and \<open>ListAllPrompts\<close>
  return is, item by item and in order, the items of the pages that are not nil. It
  is never longer than the pages together, and shorter when a page holds a nil item.
\<close>

theorem ListAll_drops_nil_items:
  assumes "serves f (normMeta r) (session c) [] ps"
  shows "(\<exists>res. map_option fst (ListAllTools now f c r) = Some (Some res, None) \<and>
            map Some (Tools res) = filter (\<lambda>t. t \<noteq> None) (page_items ps) \<and>
            length (Tools res) \<le> length (page_items ps) \<and>
            (None \<in> set (page_items ps) \<longrightarrow> length (Tools res) < length (page_items ps)))
       \<and> (\<exists>res. map_option fst (ListAllResources now f c r) = Some (Some res, None) \<and>
            map Some (Resources res) = filter (\<lambda>t. t \<noteq> None) (page_items ps) \<and>
            length (Resources res) \<le> length (page_items ps) \<and>
            (None \<in> set (page_items ps) \<longrightarrow> length (Resources res) < length (page_items ps)))
       \<and> (\<exists>res. map_option fst (ListAllPrompts now f c r) = Some (Some res, None) \<and>
            map Some (Prompts res) = filter (\<lambda>t. t \<noteq> None) (page_items ps) \<and>
            length (Prompts res) \<le> length (page_items ps) \<and>
            (None \<in> set (page_items ps) \<longrightarrow> length (Prompts res) < length (page_items ps)))"
proof -
  have less: "None \<in> set (page_items ps) \<longrightarrow> length (nonnil_items ps) < length (page_items ps)"
    using nonnil_items_shorter [of ps] by blast
  have "map_option fst (ListAllTools now f c r) = Some (Some \<lparr>Tools = nonnil_items ps\<rparr>, None)"
    using assms by (rule ListAllTools_serves)
  with less have t: "\<exists>res. map_option fst (ListAllTools now f c r) = Some (Some res, None) \<and>
            map Some (Tools res) = filter (\<lambda>t. t \<noteq> None) (page_items ps) \<and>
            length (Tools res) \<le> length (page_items ps) \<and>
            (None \<in> set (page_items ps) \<longrightarrow> length (Tools res) < length (page_items ps))"
    by (intro exI [of _ "\<lparr>Tools = nonnil_items ps\<rparr>"]) (simp add: nonnil_items_filter nonnil_items_length)
  have "map_option fst (ListAllResources now f c r) =
          Some (Some \<lparr>Resources = nonnil_items ps\<rparr>, None)"
    using assms by (rule ListAllResources_serves)
  with less have r: "\<exists>res. map_option fst (ListAllResources now f c r) = Some (Some res, None) \<and>
            map Some (Resources res) = filter (\<lambda>t. t \<noteq> None) (page_items ps) \<and>
            length (Resources res) \<le> length (page_items ps) \<and>
            (None \<in> set (page_items ps) \<longrightarrow> length (Resources res) < length (page_items ps))"
    by (intro exI [of _ "\<lparr>Resources = nonnil_items ps\<rparr>"]) (simp add: nonnil_items_filter nonnil_items_length)
  have "map_option fst (ListAllPrompts now f c r) =
          Some (Some \<lparr>Prompts = nonnil_items ps\<rparr>, None)"
    using assms by (rule ListAllPrompts_serves)
  with less have p: "\<exists>res. map_option fst (ListAllPrompts now f c r) = Some (Some res, None) \<and>
            map Some (Prompts res) = filter (\<lambda>t. t \<noteq> None) (page_items ps) \<and>
            length (Prompts res) \<le> length (page_items ps) \<and>
            (None \<in> set (page_items ps) \<longrightarrow> length (Prompts res) < length (page_items ps))"
    by (intro exI [of _ "\<lparr>Prompts = nonnil_items ps\<rparr>"]) (simp add: nonnil_items_filter nonnil_items_length)
  from t r p show ?thesis by blast
qed

text \<open>A page of three items, the second one nil, and a page of two nil items.\<close>

theorem ListAll_drops_nil_items_witness:
  "serves scripted (Some [])
     [Inr \<lparr>Items = [Some (1::nat), None, Some 2], NextCursor = ''next''\<rparr>,
      Inr \<lparr>Items = [None, None], NextCursor = ''''\<rparr>] ''''
     [\<lparr>Items = [Some 1, None, Some 2], NextCursor = ''next''\<rparr>,
      \<lparr>Items = [None, None], NextCursor = ''''\<rparr>]
   \<and> (\<exists>res. map_option fst
         (ListAllTools (\<lambda>s. 0) scripted
            (client0 [Inr \<lparr>Items = [Some (1::nat), None, Some 2], NextCursor = ''next''\<rparr>,
                      Inr \<lparr>Items = [None, None], NextCursor = ''''\<rparr>])
            \<lparr>ListAll_Meta = None\<rparr>) = Some (Some res, None) \<and>
         map Some (Tools res) = [Some 1, Some 2] \<and> length (Tools res) < 5)
   \<and> (\<exists>res. map_option fst
         (ListAllResources (\<lambda>s. 0) scripted
            (client0 [Inr \<lparr>Items = [Some (1::nat), None, Some 2], NextCursor = ''next''\<rparr>,
                      Inr \<lparr>Items = [None, None], NextCursor = ''''\<rparr>])
            \<lparr>ListAll_Meta = None\<rparr>) = Some (Some res, None) \<and>
         map Some (Resources res) = [Some 1, Some 2] \<and> length (Resources res) < 5)
   \<and> (\<exists>res. map_option fst
         (ListAllPrompts (\<lambda>s. 0) scripted
            (client0 [Inr \<lparr>Items = [Some (1::nat), None, Some 2], NextCursor = ''next''\<rparr>,
                      Inr \<lparr>Items = [None, None], NextCursor = ''''\<rparr>])
            \<lparr>ListAll_Meta = None\<rparr>) = Some (Some res, None) \<and>
         map Some (Prompts res) = [Some 1, Some 2] \<and> length (Prompts res) < 5)"
proof -
  let ?p1 = "\<lparr>Items = [Some (1::nat), None, Some 2], NextCursor = ''next''\<rparr>"
  let ?p2 = "\<lparr>Items = [None :: nat option, None], NextCursor = ''''\<rparr>"
  have s: "serves scripted (normMeta \<lparr>ListAll_Meta = None\<rparr>)
             (session (client0 [Inr ?p1, Inr ?p2])) [] [?p1, ?p2]"
    by (simp add: scripted_def normMeta_def client0_def)
  from ListAll_drops_nil_items [OF s, of "\<lambda>s. 0"] s show ?thesis
    by (auto simp add: page_items_def normMeta_def client0_def)
qed

section \<open>Properties: the single calls\<close>

text \<open>
  C8. \<open>Ping\<close> returns a boolean, true exactly when the request of the session
  gave no error. The six other calls return the outcome of the session as it is,
  error included, and the calls that list all pages return the error of the page,
  wrapped.
\<close>

theorem Ping_alone_collapses_errors:
  "fst (Ping session_Ping c) = (fst (session_Ping (session c)) = None)
   \<and> fst (Client_ListTools now fax c rax) = fst (fax (session c) rax)
   \<and> fst (Client_CallTool now fbx c rbx) = fst (fbx (session c) rbx)
   \<and> fst (ListResources now fcx c rcx) = fst (fcx (session c) rcx)
   \<and> fst (ReadResource now fdx c rdx) = fst (fdx (session c) rdx)
   \<and> fst (ListPrompts now fex c rex) = fst (fex (session c) rex)
   \<and> fst (GetPrompt now ffx c rfx) = fst (ffx (session c) rfx)
   \<and> (fails_after f (normMeta r) (session c) [] ps e \<longrightarrow>
        map_option (snd \<circ> fst) (ListAllTools now f c r) =
          Some (Some (WrapError ''failed to list tools: '' e)) \<and>
        map_option (snd \<circ> fst) (ListAllResources now f c r) =
          Some (Some (WrapError ''failed to list resources: '' e)) \<and>
        map_option (snd \<circ> fst) (ListAllPrompts now f c r) =
          Some (Some (WrapError ''failed to list prompts: '' e)))"
proof -
  have ping: "fst (Ping session_Ping c) = (fst (session_Ping (session c)) = None)"
    by (simp add: Ping_def split: prod.splits)
  have calls:
    "fst (Client_ListTools now fax c rax) = fst (fax (session c) rax)"
    "fst (Client_CallTool now fbx c rbx) = fst (fbx (session c) rbx)"
    "fst (ListResources now fcx c rcx) = fst (fcx (session c) rcx)"
    "fst (ReadResource now fdx c rdx) = fst (fdx (session c) rdx)"
    "fst (ListPrompts now fex c rex) = fst (fex (session c) rex)"
    "fst (GetPrompt now ffx c rfx) = fst (ffx (session c) rfx)"
    by (simp_all add: Client_ListTools_def Client_CallTool_def ListResources_def
          ReadResource_def ListPrompts_def GetPrompt_def split: prod.splits)
  have all: "map_option (snd \<circ> fst) (ListAllTools now f c r) =
          Some (Some (WrapError ''failed to list tools: '' e)) \<and>
        map_option (snd \<circ> fst) (ListAllResources now f c r) =
          Some (Some (WrapError ''failed to list resources: '' e)) \<and>
        map_option (snd \<circ> fst) (ListAllPrompts now f c r) =
          Some (Some (WrapError ''failed to list prompts: '' e))"
    if fa: "fails_after f (normMeta r) (session c) [] ps e"
  proof -
    have "map_option snd (map_option fst (ListAllTools now f c r)) =
            Some (Some (WrapError ''failed to list tools: '' e))"
      by (simp only: ListAllTools_fails_after [OF fa] option.map snd_conv)
    moreover have "map_option snd (map_option fst (ListAllResources now f c r)) =
            Some (Some (WrapError ''failed to list resources: '' e))"
      by (simp only: ListAllResources_fails_after [OF fa] option.map snd_conv)
    moreover have "map_option snd (map_option fst (ListAllPrompts now f c r)) =
            Some (Some (WrapError ''failed to list prompts: '' e))"
      by (simp only: ListAllPrompts_fails_after [OF fa] option.map snd_conv)
    ultimately show ?thesis by (simp only: option.map_comp)
  qed
  from ping calls all show ?thesis by blast
qed

text \<open>
  A ping that times out and one that is answered; a call of a tool the peer does
  not know; a listing whose first request fails.
\<close>

theorem Ping_alone_collapses_errors_witness:
  "\<not> fst (Ping (\<lambda>s. (Some (ErrorString ''timeout''), s)) (client0 ()))
   \<and> fst (Ping (\<lambda>s. (None, s)) (client0 ()))
   \<and> fst (Client_CallTool (\<lambda>s. 0)
            (\<lambda>s p. (Inl (ErrorString ''unknown tool'') :: error + string, s))
            (client0 ()) ''myToolbad'') = Inl (ErrorString ''unknown tool'')
   \<and> fails_after scripted (Some [])
        [Inl (ErrorString ''connection closed'') :: error + nat ListResult] '''' []
        (ErrorString ''connection closed'')
   \<and> map_option (snd \<circ> fst)
        (ListAllTools (\<lambda>s. 0) scripted
           (client0 [Inl (ErrorString ''connection closed'') :: error + nat ListResult])
           \<lparr>ListAll_Meta = None\<rparr>) =
       Some (Some (WrapError ''failed to list tools: '' (ErrorString ''connection closed'')))"
proof -
  let ?e = "ErrorString ''connection closed''"
  let ?script = "[Inl ?e :: error + nat ListResult]"
  have s: "fails_after scripted (normMeta \<lparr>ListAll_Meta = None\<rparr>)
             (session (client0 ?script)) [] [] ?e"
    by (simp add: scripted_def normMeta_def client0_def)
  have p1: "\<not> fst (Ping (\<lambda>s. (Some (ErrorString ''timeout''), s)) (client0 ()))"
    using Ping_alone_collapses_errors
            [where session_Ping = "\<lambda>s. (Some (ErrorString ''timeout''), s)"
               and c = "client0 ()", THEN conjunct1]
    by simp
  have p2: "fst (Ping (\<lambda>s. (None, s)) (client0 ()))"
    using Ping_alone_collapses_errors
            [where session_Ping = "\<lambda>s. (None, s)" and c = "client0 ()", THEN conjunct1]
    by simp
  have p3: "fst (Client_CallTool (\<lambda>s. 0)
            (\<lambda>s p. (Inl (ErrorString ''unknown tool'') :: error + string, s))
            (client0 ()) ''myToolbad'') = Inl (ErrorString ''unknown tool'')"
    using Ping_alone_collapses_errors
            [where c = "client0 ()" and now = "\<lambda>s. 0" and rbx = "''myToolbad''"
               and fbx = "\<lambda>s p. (Inl (ErrorString ''unknown tool'') :: error + string, s)",
             THEN conjunct2, THEN conjunct2, THEN conjunct1]
    by simp
  have p4: "map_option (snd \<circ> fst)
        (ListAllTools (\<lambda>s. 0) scripted (client0 ?script) \<lparr>ListAll_Meta = None\<rparr>) =
       Some (Some (WrapError ''failed to list tools: '' ?e))"
    using Ping_alone_collapses_errors
            [where c = "client0 ?script" and f = scripted and r = "\<lparr>ListAll_Meta = None\<rparr>"
               and ps = "[]" and e = ?e and now = "\<lambda>s. 0",
             THEN conjunct2, THEN conjunct2, THEN conjunct2, THEN conjunct2,
             THEN conjunct2, THEN conjunct2, THEN conjunct2] s
    by blast
  from p1 p2 p3 p4 s show ?thesis
    by (simp add: normMeta_def client0_def)
qed

section \<open>Properties: building a client\<close>

lemma map_of_update_Authorization:
  "map_of (AList.update ''Authorization'' v h) ''Authorization'' = Some v"
  by (simp add: update_conv')

text \<open>
  C6. With an empty bearer token \<open>newk6HTTPClient\<close> returns the client it built on
  an \<open>http.Transport\<close>, and a request sent through it goes out as it is. With a
  token \<open>T\<close> that is not empty it returns that same client wrapped by
  \<open>oauth2.NewClient\<close> around a static token source of \<open>T\<close>: the wrapped base is the
  transport of the client without a token, and every request sent through it goes
  out with the header \<open>Authorization: Bearer T\<close>, its URL and its other headers
  as they were.
\<close>

theorem newk6HTTPClient_bearer_token:
  "(BearerToken (Auth cfg) = [] \<longrightarrow>
      (\<exists>t. Transport (newk6HTTPClient vu cfg) = HTTP_Transport t) \<and>
      send (Transport (newk6HTTPClient vu cfg)) req = req)
   \<and> (BearerToken (Auth cfg) \<noteq> [] \<longrightarrow>
      newk6HTTPClient vu cfg =
        oauth2_NewClient (newk6HTTPClient vu (cfg\<lparr>Auth := \<lparr>BearerToken = []\<rparr>\<rparr>))
          (StaticTokenSource \<lparr>AccessToken = BearerToken (Auth cfg), TokenType = []\<rparr>) \<and>
      map_of (Header (send (Transport (newk6HTTPClient vu cfg)) req)) ''Authorization'' =
        Some (''Bearer '' @ BearerToken (Auth cfg)) \<and>
      URL (send (Transport (newk6HTTPClient vu cfg)) req) = URL req \<and>
      (\<forall>k. k \<noteq> ''Authorization'' \<longrightarrow>
         map_of (Header (send (Transport (newk6HTTPClient vu cfg)) req)) k =
         map_of (Header req) k))"
proof (intro conjI impI)
  assume "BearerToken (Auth cfg) = []"
  then show "\<exists>t. Transport (newk6HTTPClient vu cfg) = HTTP_Transport t"
    and "send (Transport (newk6HTTPClient vu cfg)) req = req"
    by (simp_all add: newk6HTTPClient_def Let_def)
next
  assume T: "BearerToken (Auth cfg) \<noteq> []"
  let ?tok = "\<lparr>AccessToken = BearerToken (Auth cfg), TokenType = []\<rparr>"
  show eq: "newk6HTTPClient vu cfg =
        oauth2_NewClient (newk6HTTPClient vu (cfg\<lparr>Auth := \<lparr>BearerToken = []\<rparr>\<rparr>))
          (StaticTokenSource ?tok)"
    using T by (simp add: newk6HTTPClient_def Let_def)
  have sent: "send (Transport (newk6HTTPClient vu cfg)) req = SetAuthHeader ?tok req"
    using T by (simp add: newk6HTTPClient_def Let_def oauth2_NewClient_def)
  show "map_of (Header (send (Transport (newk6HTTPClient vu cfg)) req)) ''Authorization'' =
        Some (''Bearer '' @ BearerToken (Auth cfg))"
    unfolding sent
    by (simp add: SetAuthHeader_def Type_def map_of_update_Authorization)
  show "URL (send (Transport (newk6HTTPClient vu cfg)) req) = URL req"
    unfolding sent by (simp add: SetAuthHeader_def)
  show "\<forall>k. k \<noteq> ''Authorization'' \<longrightarrow>
         map_of (Header (send (Transport (newk6HTTPClient vu cfg)) req)) k =
         map_of (Header req) k"
    unfolding sent by (simp add: SetAuthHeader_def update_conv')
qed

text \<open>
  Without a token a request keeps its headers; with the token \<open>T\<close> it goes out with
  \<open>Authorization: Bearer T\<close>, in place of an authorization it carried.
\<close>

theorem newk6HTTPClient_bearer_token_witness:
  "send (Transport (newk6HTTPClient vu0 cfg0))
       \<lparr>URL = ''http://localhost/mcp'', Header = [(''Accept'', ''text/event-stream'')]\<rparr> =
     \<lparr>URL = ''http://localhost/mcp'', Header = [(''Accept'', ''text/event-stream'')]\<rparr>
   \<and> map_of (Header (send (Transport (newk6HTTPClient vu0 (cfg0\<lparr>Auth := \<lparr>BearerToken = ''T''\<rparr>\<rparr>)))
       \<lparr>URL = ''http://localhost/mcp'',
        Header = [(''Accept'', ''text/event-stream''), (''Authorization'', ''Basic x'')]\<rparr>))
       ''Authorization'' = Some ''Bearer T''
   \<and> map_of (Header (send (Transport (newk6HTTPClient vu0 (cfg0\<lparr>Auth := \<lparr>BearerToken = ''T''\<rparr>\<rparr>)))
       \<lparr>URL = ''http://localhost/mcp'',
        Header = [(''Accept'', ''text/event-stream''), (''Authorization'', ''Basic x'')]\<rparr>))
       ''Accept'' = Some ''text/event-stream''"
proof -
  let ?req = "\<lparr>URL = ''http://localhost/mcp'', Header = [(''Accept'', ''text/event-stream'')]\<rparr>"
  let ?req2 = "\<lparr>URL = ''http://localhost/mcp'',
        Header = [(''Accept'', ''text/event-stream''), (''Authorization'', ''Basic x'')]\<rparr>"
  let ?cfgT = "cfg0\<lparr>Auth := \<lparr>BearerToken = ''T''\<rparr>\<rparr>"
  have e: "BearerToken (Auth cfg0) = []"
    by (simp add: cfg0_def)
  have T: "BearerToken (Auth ?cfgT) \<noteq> []"
    by simp
  note empty = newk6HTTPClient_bearer_token [of cfg0 vu0 ?req, THEN conjunct1, THEN mp, OF e]
  note token = newk6HTTPClient_bearer_token [of ?cfgT vu0 ?req2, THEN conjunct2, THEN mp, OF T]
  have a: "send (Transport (newk6HTTPClient vu0 cfg0)) ?req = ?req"
    using empty by (rule conjunct2)
  have b: "map_of (Header (send (Transport (newk6HTTPClient vu0 ?cfgT)) ?req2))
             ''Authorization'' = Some ''Bearer T''"
    using token [THEN conjunct2, THEN conjunct1] by simp
  have "''Accept'' \<noteq> ''Authorization'' \<longrightarrow>
          map_of (Header (send (Transport (newk6HTTPClient vu0 ?cfgT)) ?req2)) ''Accept'' =
          map_of (Header ?req2) ''Accept''"
    using token [THEN conjunct2, THEN conjunct2, THEN conjunct2] by (rule spec)
  then have c: "map_of (Header (send (Transport (newk6HTTPClient vu0 ?cfgT)) ?req2))
             ''Accept'' = Some ''text/event-stream''"
    by simp
  from a b c show ?thesis by simp
qed

text \<open>
  C9 (as amended). The constructors do not look at the path or at the base URL.
  When the export of the configuration fails they throw the error
  \<open>invalid config: ...\<close> and no transport is handed to \<open>client.Connect\<close>. Otherwise,
  whatever the path and the base URL are, they build the transport from the
  configuration as it is and hand it to \<open>client.Connect\<close>: when that fails they
  throw its error as \<open>connection error: ...\<close>, which is not a configuration error,
  and when it succeeds they return a client of the session.
\<close>

theorem constructors_do_not_validate_config:
  "newStdioClient cc vu w (Inl e) = (Inl (WrapError ''invalid config: '' e), w)
   \<and> newSSEClient cc vu w (Inl e) = (Inl (WrapError ''invalid config: '' e), w)
   \<and> newStreamableHTTPClient cc vu w (Inl e) = (Inl (WrapError ''invalid config: '' e), w)
   \<and> snd (newStdioClient cc vu w (Inr cfg)) =
       snd (cc w (CommandTransport
              \<lparr>cmd_Path = Path cfg, cmd_Args = Path cfg # Args cfg,
               cmd_Env = map (\<lambda>(k, v). k @ ''='' @ v) (Env cfg), cmd_Stderr = Debug cfg\<rparr>))
   \<and> map_sum id session (fst (newStdioClient cc vu w (Inr cfg))) =
       map_sum (WrapError ''connection error: '') id
         (fst (cc w (CommandTransport
              \<lparr>cmd_Path = Path cfg, cmd_Args = Path cfg # Args cfg,
               cmd_Env = map (\<lambda>(k, v). k @ ''='' @ v) (Env cfg), cmd_Stderr = Debug cfg\<rparr>)))
   \<and> snd (newSSEClient cc vu w (Inr cfg)) =
       snd (cc w (SSEClientTransport (BaseURL cfg) (newk6HTTPClient vu cfg)))
   \<and> map_sum id session (fst (newSSEClient cc vu w (Inr cfg))) =
       map_sum (WrapError ''connection error: '') id
         (fst (cc w (SSEClientTransport (BaseURL cfg) (newk6HTTPClient vu cfg))))
   \<and> snd (newStreamableHTTPClient cc vu w (Inr cfg)) =
       snd (cc w (StreamableClientTransport (BaseURL cfg) (newk6HTTPClient vu cfg)))
   \<and> map_sum id session (fst (newStreamableHTTPClient cc vu w (Inr cfg))) =
       map_sum (WrapError ''connection error: '') id
         (fst (cc w (StreamableClientTransport (BaseURL cfg) (newk6HTTPClient vu cfg))))
   \<and> is_config_error (WrapError ''invalid config: '' e)
   \<and> \<not> is_config_error (WrapError ''connection error: '' e)"
proof -
  have stdio: "snd (newStdioClient cc vu w (Inr cfg)) =
       snd (cc w (CommandTransport
              \<lparr>cmd_Path = Path cfg, cmd_Args = Path cfg # Args cfg,
               cmd_Env = map (\<lambda>(k, v). k @ ''='' @ v) (Env cfg), cmd_Stderr = Debug cfg\<rparr>))"
    "map_sum id session (fst (newStdioClient cc vu w (Inr cfg))) =
       map_sum (WrapError ''connection error: '') id
         (fst (cc w (CommandTransport
              \<lparr>cmd_Path = Path cfg, cmd_Args = Path cfg # Args cfg,
               cmd_Env = map (\<lambda>(k, v). k @ ''='' @ v) (Env cfg), cmd_Stderr = Debug cfg\<rparr>)))"
    by (simp_all add: newStdioClient_def connect_def Let_def split: prod.splits sum.splits)
  have sse: "snd (newSSEClient cc vu w (Inr cfg)) =
       snd (cc w (SSEClientTransport (BaseURL cfg) (newk6HTTPClient vu cfg)))"
    "map_sum id session (fst (newSSEClient cc vu w (Inr cfg))) =
       map_sum (WrapError ''connection error: '') id
         (fst (cc w (SSEClientTransport (BaseURL cfg) (newk6HTTPClient vu cfg))))"
    by (simp_all add: newSSEClient_def connect_def Let_def split: prod.splits sum.splits)
  have str: "snd (newStreamableHTTPClient cc vu w (Inr cfg)) =
       snd (cc w (StreamableClientTransport (BaseURL cfg) (newk6HTTPClient vu cfg)))"
    "map_sum id session (fst (newStreamableHTTPClient cc vu w (Inr cfg))) =
       map_sum (WrapError ''connection error: '') id
         (fst (cc w (StreamableClientTransport (BaseURL cfg) (newk6HTTPClient vu cfg))))"
    by (simp_all add: newStreamableHTTPClient_def connect_def Let_def
          split: prod.splits sum.splits)
  have inv: "newStdioClient cc vu w (Inl e) = (Inl (WrapError ''invalid config: '' e), w)"
    "newSSEClient cc vu w (Inl e) = (Inl (WrapError ''invalid config: '' e), w)"
    "newStreamableHTTPClient cc vu w (Inl e) = (Inl (WrapError ''invalid config: '' e), w)"
    by (simp_all add: newStdioClient_def newSSEClient_def newStreamableHTTPClient_def)
  from stdio sse str inv show ?thesis by simp
qed

text \<open>
  The claim as it is written fails on the empty path and on the empty base URL: the
  transport is built and handed to \<open>client.Connect\<close>, and what is thrown is the
  connection error of the attempt.
\<close>

theorem constructors_empty_config_counterexample:
  "newStdioClient logged_Connect vu0 [] (Inr cfg0) =
     (Inl (WrapError ''connection error: '' (ErrorString ''exec: no command'')),
      [CommandTransport \<lparr>cmd_Path = [], cmd_Args = [[]], cmd_Env = [], cmd_Stderr = False\<rparr>])
   \<and> \<not> is_config_error (WrapError ''connection error: '' (ErrorString ''exec: no command''))
   \<and> newSSEClient logged_Connect vu0 [] (Inr cfg0) =
     (Inl (WrapError ''connection error: '' (ErrorString ''unsupported protocol scheme'')),
      [SSEClientTransport [] (newk6HTTPClient vu0 cfg0)])
   \<and> newStreamableHTTPClient logged_Connect vu0 [] (Inr cfg0) =
     (Inl (WrapError ''connection error: '' (ErrorString ''unsupported protocol scheme'')),
      [StreamableClientTransport [] (newk6HTTPClient vu0 cfg0)])
   \<and> \<not> is_config_error
         (WrapError ''connection error: '' (ErrorString ''unsupported protocol scheme''))"
  by (simp add: newStdioClient_def newSSEClient_def newStreamableHTTPClient_def connect_def
        logged_Connect_def cfg0_def Let_def)

section \<open>Properties: the module that holds one session\<close>

lemma Module_pushRequestMetrics_session [simp]:
  "m_session (Module_pushRequestMetrics m method d err) = m_session m"
  by (simp add: Module_pushRequestMetrics_def Let_def split: option.splits)




text \<open>
  C7. On a module that has a session, \<open>Connect\<close> returns nil at once, whatever the
  configuration: the module, with its session, and the world are as they were, so no
  transport was handed to \<open>client.Connect\<close> and nothing was exchanged.
\<close>

theorem Connect_idempotent:
  assumes "m_session m \<noteq> None"
  shows "Module_Connect now cc cfg m w = (None, m, w)"
  using assms by (simp add: Module_Connect_def)

text \<open>
  A connected module and an empty list of connection attempts, which stays empty.
\<close>

theorem Connect_idempotent_witness:
  "m_session (mcp0 (Some ())) \<noteq> None
   \<and> Module_Connect (\<lambda>w. 0) logged_Connect
       \<lparr>Config_BaseURL = ''http://localhost/mcp'', Config_Auth = \<lparr>BearerToken = ''T''\<rparr>,
        TracingEnabled = False\<rparr> (mcp0 (Some ())) [] = (None, mcp0 (Some ()), [])"
proof -
  have n: "m_session (mcp0 (Some ())) \<noteq> None"
    by (simp add: mcp0_def)
  from Connect_idempotent [OF n, of "\<lambda>w. 0" logged_Connect _ "[]"] n
  show ?thesis by simp
qed

end
